theory Spec2Isabelle
  imports Main
begin

section \<open>Python values, exceptions and strings\<close>

text \<open>
  The two scripts are \<^verbatim>\<open>crewai_flow_chatbot_direct_call.py\<close> (the CrewAI flow) and
  \<^verbatim>\<open>langgraph_chatbot.py\<close> (the LangGraph graph). Everything they raise, or let
  through from a library call, is a value of \<open>py_exc\<close>; a function that can raise
  returns \<open>py_exc + 'a\<close>, with \<open>Inl\<close> the exception.
\<close>

datatype py_exc =
    JSONDecodeError
  | ValidationError
  | TypeError
  | AttributeError
  | IndexError
  | KeyError
  | EOFError
  | OutputParserException
  | EndpointError
  | ValueError
  | RecursionError

text \<open>
  Python objects as far as the classifier's parsing looks at them. \<open>PDict\<close> lists a
  dict's items (a dict holds a key once); \<open>PObj\<close> is an object of any other type
  (one that is neither a dict nor text that \<^verbatim>\<open>json.loads\<close> accepts, an instance
  of a pydantic model for one).
\<close>

datatype pyval =
    PNone
  | PBool bool
  | PInt int
  | PStr string
  | PList "pyval list"
  | PDict "(pyval \<times> pyval) list"
  | PObj

text \<open>
  A Python \<^verbatim>\<open>str\<close> is a \<open>string\<close> whose characters are the code points
  U+0000 to U+00FF. On these, \<^verbatim>\<open>str.isspace\<close> holds of the code points
  9 to 13, 28 to 32, 133 and 160, and \<^verbatim>\<open>str.lower\<close> adds 32 to the code
  points 65 to 90 and 192 to 222 except 215, character by character.
  \<^verbatim>\<open>str.strip()\<close> removes the leading and the trailing whitespace.
\<close>

definition isspace :: "char \<Rightarrow> bool" where
  "isspace c =
     (let n = (of_char c :: nat)
      in (9 \<le> n \<and> n \<le> 13) \<or> (28 \<le> n \<and> n \<le> 32) \<or> n = 133 \<or> n = 160)"

definition lower_char :: "char \<Rightarrow> char" where
  "lower_char c =
     (let n = (of_char c :: nat)
      in if (65 \<le> n \<and> n \<le> 90) \<or> (192 \<le> n \<and> n \<le> 222 \<and> n \<noteq> 215)
         then char_of (n + 32) else c)"

definition lower :: "string \<Rightarrow> string" where
  "lower s = map lower_char s"

definition strip :: "string \<Rightarrow> string" where
  "strip s = rev (dropWhile isspace (rev (dropWhile isspace s)))"

section \<open>Messages, the endpoint and the console\<close>

text \<open>A role-tagged message: the dict \<^verbatim>\<open>{"role": r, "content": c}\<close>.\<close>

record message =
  role :: string
  content :: string

definition system_message :: "string \<Rightarrow> message" where
  "system_message t = \<lparr>role = ''system'', content = t\<rparr>"

definition user_turn :: "string \<Rightarrow> message" where
  "user_turn t = \<lparr>role = ''user'', content = t\<rparr>"

definition assistant_turn :: "string \<Rightarrow> message" where
  "assistant_turn t = \<lparr>role = ''assistant'', content = t\<rparr>"

text \<open>
  The hosted language model is an external collaborator. \<open>endpoint\<close> holds what it
  answers: the first argument of each field is the number of requests made before this
  one, so two equal requests may be answered differently. \<open>completion\<close> is
  \<^verbatim>\<open>gemini_llm.call\<close> (CrewAI) and the content of \<^verbatim>\<open>llm.invoke\<close> (LangGraph);
  \<open>classifier_call\<close> is \<^verbatim>\<open>classifier_llm.call\<close> of the CrewAI flow, whose result is
  a dict or text; \<open>structured_invoke\<close> is \<^verbatim>\<open>classifier_llm.invoke\<close> of the
  LangGraph graph, the model wrapped by \<^verbatim>\<open>with_structured_output\<close>: the
  \<^verbatim>\<open>message_type\<close> of the parsed object, \<open>None\<close> when the wrapper returns
  \<^verbatim>\<open>None\<close>, or the exception it raises. \<open>json_loads\<close> is \<^verbatim>\<open>json.loads\<close> on
  text: the value decoded, or the exception raised, which is \<^verbatim>\<open>JSONDecodeError\<close>
  on text that is no JSON, \<^verbatim>\<open>ValueError\<close> on an integer of more digits than
  the interpreter converts, and \<^verbatim>\<open>RecursionError\<close> on nesting too deep.
\<close>

record endpoint =
  completion :: "nat \<Rightarrow> message list \<Rightarrow> py_exc + string"
  classifier_call :: "nat \<Rightarrow> message list \<Rightarrow> py_exc + pyval"
  structured_invoke :: "nat \<Rightarrow> message \<Rightarrow> message \<Rightarrow> py_exc + string option"
  json_loads :: "string \<Rightarrow> py_exc + pyval"

text \<open>
  The requests made so far, each with its answer, and what the console has shown.
  In \<open>Structured\<close> the second message is the object passed as the content of the user
  entry (the LangGraph classifier passes the last message itself, not its text).
\<close>

datatype endpoint_call =
    Completion "message list" "py_exc + string"
  | Classification "message list" "py_exc + pyval"
  | Structured message message "py_exc + string option"

datatype console_event =
    Prompt string
  | Print string

record world =
  calls :: "endpoint_call list"
  console :: "console_event list"

definition world0 :: world where
  "world0 = \<lparr>calls = [], console = []\<rparr>"

definition log_call :: "endpoint_call \<Rightarrow> world \<Rightarrow> world" where
  "log_call c w = w\<lparr>calls := calls w @ [c]\<rparr>"

definition show_prompt :: "string \<Rightarrow> world \<Rightarrow> world" where
  "show_prompt p w = w\<lparr>console := console w @ [Prompt p]\<rparr>"

definition print_line :: "string \<Rightarrow> world \<Rightarrow> world" where
  "print_line t w = w\<lparr>console := console w @ [Print t]\<rparr>"

section \<open>The fixed instruction texts\<close>

text \<open>
  The triple-quoted literals of the sources. Their lines are the same in both scripts;
  only the indentation that follows each line break differs (16 blanks in the CrewAI
  flow; 24, 12 and 12 in the LangGraph graph).
\<close>

definition line_break :: "nat \<Rightarrow> string" where
  "line_break n = CHR 0x0A # replicate n CHR '' ''"

definition classifier_prompt :: "nat \<Rightarrow> string" where
  "classifier_prompt n =
     ''Classify the user message as either:'' @ line_break n @
     ''- 'emotional': if it asks for emotional support, therapy, deals with feelings, or personal problems'' @ line_break n @
     ''- 'logical': if it asks for facts, information, logical analysis, or practical solutions'' @ line_break n"

definition therapist_prompt :: "nat \<Rightarrow> string" where
  "therapist_prompt n =
     ''You are a compassionate therapist. Focus on the emotional aspects of the user's message.'' @ line_break n @
     ''Show empathy, validate their feelings, and help them process their emotions.'' @ line_break n @
     ''Ask thoughtful questions to help them explore their feelings more deeply.'' @ line_break n @
     ''Avoid giving logical solutions unless explicitly asked.''"

definition logical_prompt :: "nat \<Rightarrow> string" where
  "logical_prompt n =
     ''You are a purely logical assistant. Focus only on facts and information.'' @ line_break n @
     ''Provide clear, concise answers based on logic and evidence.'' @ line_break n @
     ''Do not address emotions or provide emotional support.'' @ line_break n @
     ''Be direct and straightforward in your responses.''"

section \<open>The CrewAI flow\<close>

text \<open>The flow's state, \<^verbatim>\<open>MessageState\<close>, with the defaults of its fields.\<close>

record MessageState =
  user_message :: string
  message_type :: string
  response :: string
  conversation_history :: "message list"

definition MessageState0 :: MessageState where
  "MessageState0 =
     \<lparr>user_message = [], message_type = [], response = [], conversation_history = []\<rparr>"

text \<open>
  \<^verbatim>\<open>data = result if isinstance(result, dict) else json.loads(result)\<close>:
  \<^verbatim>\<open>json.loads\<close> raises \<^verbatim>\<open>TypeError\<close> on an object that is not text, and
  on text whatever the decoder raises.
\<close>

definition load_data :: "(string \<Rightarrow> py_exc + pyval) \<Rightarrow> pyval \<Rightarrow> py_exc + pyval" where
  "load_data loads result =
     (case result of
        PDict kvs \<Rightarrow> Inr (PDict kvs)
      | PStr s \<Rightarrow> loads s
      | _ \<Rightarrow> Inl TypeError)"

fun is_str :: "pyval \<Rightarrow> bool" where
  "is_str (PStr s) = True"
| "is_str v = False"

text \<open>
  \<^verbatim>\<open>MessageClassifier(**data).message_type\<close>. Unpacking raises \<^verbatim>\<open>TypeError\<close>
  unless \<^verbatim>\<open>data\<close> is a dict whose keys are all text. The model has the one required
  field \<^verbatim>\<open>message_type: Literal["emotional", "logical"]\<close>; other keys are ignored
  (the default of a pydantic model), and a missing field or a value that is not one of
  the two literals raises \<^verbatim>\<open>ValidationError\<close>.
\<close>

definition MessageClassifier :: "pyval \<Rightarrow> py_exc + string" where
  "MessageClassifier data =
     (case data of
        PDict kvs \<Rightarrow>
          if list_all is_str (map fst kvs) then
            (case map_of kvs (PStr ''message_type'') of
               Some (PStr v) \<Rightarrow>
                 if v = ''emotional'' \<or> v = ''logical'' then Inr v else Inl ValidationError
             | _ \<Rightarrow> Inl ValidationError)
          else Inl TypeError
      | _ \<Rightarrow> Inl TypeError)"

text \<open>The body of the \<^verbatim>\<open>try\<close> block of \<^verbatim>\<open>classify_message\<close>.\<close>

definition parse_label :: "(string \<Rightarrow> py_exc + pyval) \<Rightarrow> pyval \<Rightarrow> py_exc + string" where
  "parse_label loads result =
     (case load_data loads result of
        Inl e \<Rightarrow> Inl e
      | Inr data \<Rightarrow> MessageClassifier data)"

text \<open>
  \<^verbatim>\<open>except (json.JSONDecodeError, ValidationError, TypeError)\<close>: a plain
  \<^verbatim>\<open>ValueError\<close> is no instance of its subclasses, and is not caught.
\<close>

definition caught :: "py_exc \<Rightarrow> bool" where
  "caught e = (e = JSONDecodeError \<or> e = ValidationError \<or> e = TypeError)"

definition classify_request :: "nat \<Rightarrow> string \<Rightarrow> message list" where
  "classify_request n t = [system_message (classifier_prompt n), user_turn t]"

text \<open>
  \<^verbatim>\<open>ChatbotFlow.classify_message\<close>, the \<^verbatim>\<open>@start()\<close> step. The call of the
  classifier client stands outside the \<^verbatim>\<open>try\<close> block, so an exception of the call
  itself goes to the caller.
\<close>

definition classify_message ::
  "endpoint \<Rightarrow> world \<times> MessageState \<Rightarrow> (py_exc + string) \<times> world \<times> MessageState" where
  "classify_message ep ws =
     (case ws of (w, st) \<Rightarrow>
        if user_message st = [] then (Inr ''exit'', w, st)
        else
          let request = classify_request 16 (user_message st);
              result = classifier_call ep (length (calls w)) request;
              w1 = log_call (Classification request result) w
          in (case result of
                Inl e \<Rightarrow> (Inl e, w1, st)
              | Inr r \<Rightarrow>
                  (case parse_label (json_loads ep) r of
                     Inr mt \<Rightarrow> (Inr mt, w1, st\<lparr>message_type := mt\<rparr>)
                   | Inl e \<Rightarrow>
                       if caught e
                       then (Inr ''logical'', w1, st\<lparr>message_type := ''logical''\<rparr>)
                       else (Inl e, w1, st))))"

text \<open>\<^verbatim>\<open>ChatbotFlow.route_message\<close>, the \<^verbatim>\<open>@router(classify_message)\<close> step.\<close>

definition route_message :: "string \<Rightarrow> string" where
  "route_message mt =
     (if mt = ''exit'' then ''exit''
      else if mt = ''emotional'' then ''therapist''
      else ''logical'')"

text \<open>
  The body that \<^verbatim>\<open>therapist_response\<close> and \<^verbatim>\<open>logical_response\<close> share; the two
  methods differ in the system text only. The message list is a fresh list: the system
  entry, extended by the history, with the user entry appended. After the call returns,
  the history is extended by the user entry and the assistant entry, the reply is stored
  and printed.
\<close>

definition responder_request :: "string \<Rightarrow> MessageState \<Rightarrow> message list" where
  "responder_request persona st =
     [system_message persona] @ conversation_history st @ [user_turn (user_message st)]"

definition persona_response ::
  "string \<Rightarrow> endpoint \<Rightarrow> world \<times> MessageState \<Rightarrow> (py_exc + string) \<times> world \<times> MessageState" where
  "persona_response persona ep ws =
     (case ws of (w, st) \<Rightarrow>
        let messages = responder_request persona st;
            answer = completion ep (length (calls w)) messages;
            w1 = log_call (Completion messages answer) w
        in (case answer of
              Inl e \<Rightarrow> (Inl e, w1, st)
            | Inr reply \<Rightarrow>
                (Inr reply,
                 print_line (''Assistant: '' @ reply) w1,
                 st\<lparr>conversation_history :=
                       conversation_history st @ [user_turn (user_message st), assistant_turn reply],
                     response := reply\<rparr>)))"

definition therapist_response ::
  "endpoint \<Rightarrow> world \<times> MessageState \<Rightarrow> (py_exc + string) \<times> world \<times> MessageState" where
  "therapist_response = persona_response (therapist_prompt 16)"

definition logical_response ::
  "endpoint \<Rightarrow> world \<times> MessageState \<Rightarrow> (py_exc + string) \<times> world \<times> MessageState" where
  "logical_response = persona_response (logical_prompt 16)"

text \<open>\<^verbatim>\<open>ChatbotFlow.handle_exit\<close>, the \<^verbatim>\<open>@listen("exit")\<close> step.\<close>

definition handle_exit ::
  "world \<times> MessageState \<Rightarrow> (py_exc + string) \<times> world \<times> MessageState" where
  "handle_exit ws = (case ws of (w, st) \<Rightarrow> (Inr ''goodbye'', print_line ''Bye'' w, st))"

text \<open>
  \<^verbatim>\<open>flow.kickoff()\<close> as the decorators wire it: the start step, the router on its
  return value, then the step that listens to the router's answer; the value returned
  is the last step's.
\<close>

definition kickoff ::
  "endpoint \<Rightarrow> world \<times> MessageState \<Rightarrow> (py_exc + string) \<times> world \<times> MessageState" where
  "kickoff ep ws =
     (case classify_message ep ws of
        (Inl e, ws1) \<Rightarrow> (Inl e, ws1)
      | (Inr mt, ws1) \<Rightarrow>
          let branch = route_message mt
          in if branch = ''therapist'' then therapist_response ep ws1
             else if branch = ''logical'' then logical_response ep ws1
             else if branch = ''exit'' then handle_exit ws1
             else (Inr branch, ws1))"

text \<open>
  \<^verbatim>\<open>run_chatbot\<close> of the CrewAI script. The lines the console will supply are the
  list argument; \<^verbatim>\<open>input\<close> shows its prompt and raises \<^verbatim>\<open>EOFError\<close> when no line
  is left.
\<close>

definition crew_prompt :: string where
  "crew_prompt = ''Type your message here or type exit to quit: ''"

fun run_loop ::
  "endpoint \<Rightarrow> string list \<Rightarrow> world \<times> MessageState \<Rightarrow> (py_exc + unit) \<times> world \<times> MessageState" where
  "run_loop ep [] (w, st) = (Inl EOFError, show_prompt crew_prompt w, st)"
| "run_loop ep (user_input # rest) (w, st) =
     (if strip (lower user_input) = ''exit'' then (Inr (), show_prompt crew_prompt w, st)
      else
        (case kickoff ep (show_prompt crew_prompt w, st\<lparr>user_message := user_input\<rparr>) of
           (Inl e, w1, st1) \<Rightarrow> (Inl e, w1, st1)
         | (Inr result, w1, st1) \<Rightarrow>
             if message_type st1 = ''exit'' \<or> result = ''goodbye'' then (Inr (), w1, st1)
             else run_loop ep rest (w1, st1)))"

definition run_chatbot ::
  "endpoint \<Rightarrow> string list \<Rightarrow> (py_exc + unit) \<times> world \<times> MessageState" where
  "run_chatbot ep lines = run_loop ep lines (world0, MessageState0)"

section \<open>The LangGraph graph\<close>

text \<open>
  The graph's state, \<^verbatim>\<open>State\<close>: the message list, the label (\<open>None\<close> is Python's
  \<^verbatim>\<open>None\<close>, the value \<^verbatim>\<open>run_chatbot\<close> starts with) and the key \<^verbatim>\<open>next\<close>
  that the router's update adds. A node returns a partial update; the graph merges it
  into the state, and the reducer of \<^verbatim>\<open>messages\<close> appends the returned entries.
  The nodes below return the merged state.
\<close>

record State =
  messages :: "message list"
  lg_message_type :: "string option"
  next_node :: "string option"

definition State0 :: State where
  "State0 = \<lparr>messages = [], lg_message_type = None, next_node = None\<rparr>"

text \<open>
  \<^verbatim>\<open>classify_message\<close> of the graph. \<^verbatim>\<open>state["messages"][-1]\<close> raises
  \<^verbatim>\<open>IndexError\<close> on an empty list; the structured call stands in no \<^verbatim>\<open>try\<close>
  block; \<^verbatim>\<open>result.message_type\<close> raises \<^verbatim>\<open>AttributeError\<close> on \<^verbatim>\<open>None\<close>.
\<close>

definition lg_classify_message :: "endpoint \<Rightarrow> world \<times> State \<Rightarrow> (py_exc + State) \<times> world" where
  "lg_classify_message ep ws =
     (case ws of (w, state) \<Rightarrow>
        if messages state = [] then (Inl IndexError, w)
        else
          let last_message = last (messages state);
              instruction = system_message (classifier_prompt 12);
              result = structured_invoke ep (length (calls w)) instruction last_message;
              w1 = log_call (Structured instruction last_message result) w
          in (case result of
                Inl e \<Rightarrow> (Inl e, w1)
              | Inr None \<Rightarrow> (Inl AttributeError, w1)
              | Inr (Some mt) \<Rightarrow> (Inr (state\<lparr>lg_message_type := Some mt\<rparr>), w1)))"

text \<open>
  \<^verbatim>\<open>router\<close>: the value of the key \<^verbatim>\<open>next\<close> in the update it returns. The key
  \<^verbatim>\<open>message_type\<close> is always present in the state, so the default of
  \<^verbatim>\<open>state.get\<close> is never taken; a missing key and \<^verbatim>\<open>None\<close> both end in the
  \<^verbatim>\<open>else\<close> branch.
\<close>

definition router :: "State \<Rightarrow> string" where
  "router state =
     (if lg_message_type state = Some ''emotional'' then ''therapist'' else ''logical'')"

text \<open>
  The body that \<^verbatim>\<open>therapist_agent\<close> and \<^verbatim>\<open>logical_agent\<close> share. The message
  list is the system entry and one user entry with the content of the last message.
\<close>

definition agent_request :: "string \<Rightarrow> State \<Rightarrow> message list" where
  "agent_request persona state =
     [system_message persona, user_turn (content (last (messages state)))]"

definition persona_agent ::
  "string \<Rightarrow> endpoint \<Rightarrow> world \<times> State \<Rightarrow> (py_exc + State) \<times> world" where
  "persona_agent persona ep ws =
     (case ws of (w, state) \<Rightarrow>
        if messages state = [] then (Inl IndexError, w)
        else
          let request = agent_request persona state;
              answer = completion ep (length (calls w)) request;
              w1 = log_call (Completion request answer) w
          in (case answer of
                Inl e \<Rightarrow> (Inl e, w1)
              | Inr reply \<Rightarrow>
                  (Inr (state\<lparr>messages := messages state @ [assistant_turn reply]\<rparr>), w1)))"

definition therapist_agent :: "endpoint \<Rightarrow> world \<times> State \<Rightarrow> (py_exc + State) \<times> world" where
  "therapist_agent = persona_agent (therapist_prompt 24)"

definition logical_agent :: "endpoint \<Rightarrow> world \<times> State \<Rightarrow> (py_exc + State) \<times> world" where
  "logical_agent = persona_agent (logical_prompt 12)"

text \<open>
  \<^verbatim>\<open>graph.invoke\<close> as the builder wires it: classifier, router, then the node that
  the conditional edge's table gives for \<^verbatim>\<open>state.get("next")\<close>, then the end.
\<close>

definition graph_invoke :: "endpoint \<Rightarrow> world \<times> State \<Rightarrow> (py_exc + State) \<times> world" where
  "graph_invoke ep ws =
     (case lg_classify_message ep ws of
        (Inl e, w1) \<Rightarrow> (Inl e, w1)
      | (Inr s1, w1) \<Rightarrow>
          let s2 = s1\<lparr>next_node := Some (router s1)\<rparr>
          in if next_node s2 = Some ''therapist'' then therapist_agent ep (w1, s2)
             else if next_node s2 = Some ''logical'' then logical_agent ep (w1, s2)
             else (Inl KeyError, w1))"

text \<open>
  \<^verbatim>\<open>run_chatbot\<close> of the LangGraph script. The user entry is put on the list
  before the graph runs; when the graph raises, the state keeps it.
\<close>

definition lg_prompt :: string where
  "lg_prompt = ''Enter your message: ''"

definition show_last :: "State \<Rightarrow> world \<Rightarrow> world" where
  "show_last state w =
     (if messages state \<noteq> []
      then print_line (''Assistant: '' @ content (last (messages state))) w
      else w)"

fun lg_run_loop ::
  "endpoint \<Rightarrow> string list \<Rightarrow> world \<times> State \<Rightarrow> (py_exc + unit) \<times> world \<times> State" where
  "lg_run_loop ep [] (w, state) = (Inl EOFError, show_prompt lg_prompt w, state)"
| "lg_run_loop ep (user_input # rest) (w, state) =
     (if lower (strip user_input) = ''exit''
      then (Inr (), print_line ''Bye'' (show_prompt lg_prompt w), state)
      else
        (case graph_invoke ep
                (show_prompt lg_prompt w,
                 state\<lparr>messages := messages state @ [user_turn user_input]\<rparr>) of
           (Inl e, w1) \<Rightarrow>
             (Inl e, w1, state\<lparr>messages := messages state @ [user_turn user_input]\<rparr>)
         | (Inr state2, w1) \<Rightarrow> lg_run_loop ep rest (show_last state2 w1, state2)))"

definition lg_run_chatbot ::
  "endpoint \<Rightarrow> string list \<Rightarrow> (py_exc + unit) \<times> world \<times> State" where
  "lg_run_chatbot ep lines = lg_run_loop ep lines (world0, State0)"

section \<open>The language-model clients\<close>

text \<open>
  The keyword arguments a client is constructed with; \<open>None\<close> is an argument that is
  not passed or is passed as \<^verbatim>\<open>None\<close>. The process environment is a map;
  \<^verbatim>\<open>os.environ.get("MODEL")\<close> is \<open>None\<close> when the variable is not set.
\<close>

record client_config =
  model :: "string option"
  temperature :: "int option"
  max_tokens :: "int option"
  timeout :: "int option"
  max_retries :: "int option"
  response_format :: "string option"

definition GEMINI_MODEL :: "(string \<rightharpoonup> string) \<Rightarrow> string option" where
  "GEMINI_MODEL environ = environ ''MODEL''"

text \<open>The responder client of the CrewAI script.\<close>

definition gemini_llm :: "(string \<rightharpoonup> string) \<Rightarrow> client_config" where
  "gemini_llm environ =
     \<lparr>model = GEMINI_MODEL environ, temperature = Some 0, max_tokens = Some 4096,
      timeout = None, max_retries = None, response_format = None\<rparr>"

text \<open>The classifier client that \<^verbatim>\<open>ChatbotFlow.classify_message\<close> constructs.\<close>

definition classifier_llm :: "(string \<rightharpoonup> string) \<Rightarrow> client_config" where
  "classifier_llm environ =
     \<lparr>model = GEMINI_MODEL environ, temperature = None, max_tokens = None,
      timeout = None, max_retries = None, response_format = Some ''MessageClassifier''\<rparr>"

text \<open>
  The client of the LangGraph script, and the classifier client made from it by
  \<^verbatim>\<open>with_structured_output(MessageClassifier)\<close>. The script reads no variable of
  the environment for them.
\<close>

definition llm :: "(string \<rightharpoonup> string) \<Rightarrow> client_config" where
  "llm environ =
     \<lparr>model = Some ''gemini-2.5-flash'', temperature = Some 0, max_tokens = None,
      timeout = None, max_retries = Some 2, response_format = None\<rparr>"

definition lg_classifier_llm :: "(string \<rightharpoonup> string) \<Rightarrow> client_config" where
  "lg_classifier_llm environ = (llm environ)\<lparr>response_format := Some ''MessageClassifier''\<rparr>"

section \<open>Observers and sample inputs\<close>

text \<open>The message lists of the completion requests in a log, in the order they were made.\<close>

fun completion_requests :: "endpoint_call list \<Rightarrow> message list list" where
  "completion_requests [] = []"
| "completion_requests (Completion msgs answer # cs) = msgs # completion_requests cs"
| "completion_requests (c # cs) = completion_requests cs"

text \<open>The replies that the completion requests of a log received, in order.\<close>

fun replies_of :: "endpoint_call list \<Rightarrow> string list" where
  "replies_of [] = []"
| "replies_of (Completion msgs (Inr reply) # cs) = reply # replies_of cs"
| "replies_of (c # cs) = replies_of cs"

text \<open>The history that a list of turns (user text, assistant text) stands for.\<close>

fun turn_pairs :: "(string \<times> string) list \<Rightarrow> message list" where
  "turn_pairs [] = []"
| "turn_pairs ((u, r) # ps) = user_turn u # assistant_turn r # turn_pairs ps"

text \<open>
  Three endpoints for concrete runs. The first answers every completion request with
  the last message's text behind \<open>re: \<close>, and classifies everything as emotional.
  The second answers the CrewAI classifier with text that is no JSON, and its
  structured call raises. The third answers the CrewAI classifier with an integer of
  5000 digits, on which \<^verbatim>\<open>json.loads\<close> raises \<^verbatim>\<open>ValueError\<close>.
\<close>

definition echo_endpoint :: endpoint where
  "echo_endpoint =
     \<lparr>completion = (\<lambda>n msgs. Inr (''re: '' @ content (last msgs))),
      classifier_call = (\<lambda>n msgs. Inr (PDict [(PStr ''message_type'', PStr ''emotional'')])),
      structured_invoke = (\<lambda>n instruction m. Inr (Some ''emotional'')),
      json_loads = (\<lambda>s. Inl JSONDecodeError)\<rparr>"

definition broken_endpoint :: endpoint where
  "broken_endpoint =
     \<lparr>completion = (\<lambda>n msgs. Inr (''re: '' @ content (last msgs))),
      classifier_call = (\<lambda>n msgs. Inr (PStr ''I think it is emotional'')),
      structured_invoke = (\<lambda>n instruction m. Inl OutputParserException),
      json_loads = (\<lambda>s. Inl JSONDecodeError)\<rparr>"

definition overflow_endpoint :: endpoint where
  "overflow_endpoint =
     \<lparr>completion = (\<lambda>n msgs. Inr (''re: '' @ content (last msgs))),
      classifier_call = (\<lambda>n msgs. Inr (PStr (replicate 5000 CHR ''1''))),
      structured_invoke = (\<lambda>n instruction m. Inr (Some ''logical'')),
      json_loads =
        (\<lambda>s. if s = replicate 5000 CHR ''1'' then Inl ValueError else Inl JSONDecodeError)\<rparr>"

definition three_messages :: State where
  "three_messages =
     \<lparr>messages = [user_turn ''a'', assistant_turn ''b'', user_turn ''c''],
      lg_message_type = Some ''emotional'', next_node = Some ''therapist''\<rparr>"

definition two_turns :: MessageState where
  "two_turns =
     \<lparr>user_message = ''c'', message_type = ''emotional'', response = ''b'',
      conversation_history = [user_turn ''a'', assistant_turn ''b'']\<rparr>"

definition demo_environ :: "string \<rightharpoonup> string" where
  "demo_environ = [''MODEL'' \<mapsto> ''gemini/gemini-2.0-flash'', ''GEMINI_API_KEY'' \<mapsto> ''k'']"

section \<open>Auxiliary facts\<close>

lemma content_turn [simp]:
  "content (user_turn t) = t" "content (assistant_turn t) = t" "content (system_message t) = t"
  by (simp_all add: user_turn_def assistant_turn_def system_message_def)

lemma calls_show_prompt: "calls (show_prompt p w) = calls w"
  by (simp add: show_prompt_def)

lemma calls_print_line: "calls (print_line t w) = calls w"
  by (simp add: print_line_def)

lemma completion_requests_append:
  "completion_requests (xs @ ys) = completion_requests xs @ completion_requests ys"
  by (induction xs rule: completion_requests.induct) simp_all

lemma replies_of_append: "replies_of (xs @ ys) = replies_of xs @ replies_of ys"
  by (induction xs rule: replies_of.induct) simp_all

lemma length_turn_pairs: "length (turn_pairs ps) = 2 * length ps"
  by (induction ps rule: turn_pairs.induct) simp_all

subsection \<open>Lowering and stripping commute\<close>

lemma isspace_lower_char: "isspace (lower_char c) = isspace c"
  by (simp add: isspace_def lower_char_def Let_def)

lemma dropWhile_isspace_lower: "dropWhile isspace (lower s) = lower (dropWhile isspace s)"
  by (induction s) (simp_all add: lower_def isspace_lower_char)

lemma strip_lower: "strip (lower s) = lower (strip s)"
proof -
  have "rev (lower t) = lower (rev t)" for t
    by (simp add: lower_def rev_map)
  then show ?thesis
    by (simp add: strip_def dropWhile_isspace_lower)
qed

lemma empty_is_no_sentinel: "strip (lower []) \<noteq> ''exit''" "lower (strip []) \<noteq> ''exit''"
  by (simp_all add: strip_def lower_def)

section \<open>The exit sentinel\<close>

text \<open>
  C10. The test of the CrewAI loop (lower, then strip, then compare with \<open>exit\<close>) and
  the test of the LangGraph loop (strip, then lower, then compare) accept the same
  input lines.
\<close>

theorem exit_sentinel_predicates_agree:
  "(strip (lower user_input) = ''exit'') = (lower (strip user_input) = ''exit'')"
  by (simp add: strip_lower)

text \<open>Both tests accept a padded, mixed-case \<open>exit\<close>, and both reject a longer line.\<close>

theorem exit_sentinel_predicates_agree_witness:
  "strip (lower ''  ExIt '') = ''exit'' \<and> lower (strip ''  ExIt '') = ''exit''
   \<and> strip (lower ''exit now'') \<noteq> ''exit'' \<and> lower (strip ''exit now'') \<noteq> ''exit''"
  using exit_sentinel_predicates_agree [of "''  ExIt ''"]
    exit_sentinel_predicates_agree [of "''exit now''"]
  by code_simp

text \<open>
  C6. When the line read at the prompt, stripped of surrounding whitespace and lowered,
  is \<open>exit\<close>, each loop returns at once: no request is added to the log, so the
  classifier is not invoked, and the state is as it was.
\<close>

theorem exit_sentinel_ends_session_without_classifier:
  assumes "lower (strip user_input) = ''exit''"
  shows "run_loop ep (user_input # rest) (w, st) = (Inr (), show_prompt crew_prompt w, st)
       \<and> calls (fst (snd (run_loop ep (user_input # rest) (w, st)))) = calls w
       \<and> lg_run_loop ep (user_input # rest) (w, state)
           = (Inr (), print_line ''Bye'' (show_prompt lg_prompt w), state)
       \<and> calls (fst (snd (lg_run_loop ep (user_input # rest) (w, state)))) = calls w"
  using assms by (simp add: strip_lower calls_show_prompt calls_print_line)

theorem exit_sentinel_ends_session_without_classifier_witness:
  "lower (strip '' Exit  '') = ''exit''
   \<and> calls (fst (snd (run_loop echo_endpoint ['' Exit  '', ''hello''] (world0, two_turns)))) = []
   \<and> snd (snd (run_loop echo_endpoint ['' Exit  '', ''hello''] (world0, two_turns))) = two_turns
   \<and> calls (fst (snd (lg_run_loop echo_endpoint ['' Exit  '', ''hello''] (world0, three_messages)))) = []"
proof -
  have sentinel: "lower (strip '' Exit  '') = ''exit''"
    by code_simp
  from exit_sentinel_ends_session_without_classifier [OF sentinel, of echo_endpoint "[''hello'']"
      world0 two_turns three_messages] sentinel
  show ?thesis
    by (simp add: world0_def strip_lower calls_show_prompt calls_print_line)
qed

section \<open>The persona responders\<close>

lemma persona_response_calls:
  "calls (fst (snd (persona_response persona ep (w, st)))) =
     calls w @ [Completion (responder_request persona st)
                  (completion ep (length (calls w)) (responder_request persona st))]"
  by (simp add: persona_response_def Let_def log_call_def print_line_def split: sum.splits)

lemma persona_agent_calls:
  "calls (snd (persona_agent persona ep (w, state))) =
     calls w @ (if messages state = [] then []
                else [Completion (agent_request persona state)
                        (completion ep (length (calls w)) (agent_request persona state))])"
  by (simp add: persona_agent_def Let_def log_call_def split: sum.splits)

text \<open>
  C1, as amended. In the CrewAI flow, each responder sends exactly one request, whose
  message list is the fixed persona instruction, then every entry of the history in
  order, then the new user turn. In the LangGraph graph, each agent sends the fixed
  persona instruction and one user entry with the text of the last message, and no
  other entry of the history (and nothing when the message list is empty, where it
  raises).
\<close>

theorem responder_message_lists:
  "completion_requests (calls (fst (snd (therapist_response ep (w, st))))) =
     completion_requests (calls w) @
       [[system_message (therapist_prompt 16)] @ conversation_history st
          @ [user_turn (user_message st)]]
   \<and> completion_requests (calls (fst (snd (logical_response ep (w, st))))) =
     completion_requests (calls w) @
       [[system_message (logical_prompt 16)] @ conversation_history st
          @ [user_turn (user_message st)]]
   \<and> completion_requests (calls (snd (therapist_agent ep (w, state)))) =
     completion_requests (calls w) @
       (if messages state = [] then []
        else [[system_message (therapist_prompt 24),
               user_turn (content (last (messages state)))]])
   \<and> completion_requests (calls (snd (logical_agent ep (w, state)))) =
     completion_requests (calls w) @
       (if messages state = [] then []
        else [[system_message (logical_prompt 12),
               user_turn (content (last (messages state)))]])"
  by (simp add: therapist_response_def logical_response_def therapist_agent_def
      logical_agent_def persona_response_calls persona_agent_calls
      completion_requests_append responder_request_def agent_request_def)

text \<open>
  With two earlier entries in the history and the new user turn \<open>c\<close>, the CrewAI
  therapist sends four messages and the LangGraph logical agent sends two.
\<close>

theorem responder_message_lists_witness:
  "completion_requests (calls (fst (snd (therapist_response echo_endpoint (world0, two_turns))))) =
     [[system_message (therapist_prompt 16), user_turn ''a'', assistant_turn ''b'', user_turn ''c'']]
   \<and> completion_requests (calls (snd (logical_agent echo_endpoint (world0, three_messages)))) =
     [[system_message (logical_prompt 12), user_turn ''c'']]"
  using responder_message_lists [of echo_endpoint world0 two_turns three_messages]
  by (simp add: world0_def three_messages_def two_turns_def)

text \<open>
  C1 as stated fails in the LangGraph graph: with the history \<open>a\<close>, \<open>b\<close> before the
  new user turn \<open>c\<close>, the therapist agent's request is the instruction and \<open>c\<close> alone,
  not the instruction, the history and \<open>c\<close>.
\<close>

theorem langgraph_agent_omits_history:
  "completion_requests (calls (snd (therapist_agent echo_endpoint (world0, three_messages))))
     = [[system_message (therapist_prompt 24), user_turn ''c'']]
   \<and> completion_requests (calls (snd (therapist_agent echo_endpoint (world0, three_messages))))
     \<noteq> [[system_message (therapist_prompt 24)] @ [user_turn ''a'', assistant_turn ''b'']
          @ [user_turn ''c'']]"
  by (simp add: therapist_agent_def persona_agent_calls agent_request_def three_messages_def
      world0_def)

section \<open>The routers\<close>

text \<open>
  C3, as amended. \<open>route_message\<close> and \<open>router\<close> are functions of the label (of the
  state's label) alone. The CrewAI router sends \<open>exit\<close> to the exit branch,
  \<open>emotional\<close> to the therapist branch and every other label, \<open>logical\<close> among them,
  to the logical branch. The LangGraph router sends \<open>emotional\<close> to the therapist
  branch and every other label to the logical branch, \<open>exit\<close> and \<open>None\<close> included:
  it has no exit branch. Neither selects a branch other than these.
\<close>

theorem router_decision_tables:
  "route_message ''emotional'' = ''therapist''
   \<and> route_message ''logical'' = ''logical''
   \<and> route_message ''exit'' = ''exit''
   \<and> (mt \<noteq> ''exit'' \<and> mt \<noteq> ''emotional'' \<longrightarrow> route_message mt = ''logical'')
   \<and> (route_message mt = ''therapist'' \<or> route_message mt = ''logical''
        \<or> route_message mt = ''exit'')
   \<and> router (state\<lparr>lg_message_type := Some ''emotional''\<rparr>) = ''therapist''
   \<and> router (state\<lparr>lg_message_type := Some ''logical''\<rparr>) = ''logical''
   \<and> router (state\<lparr>lg_message_type := Some ''exit''\<rparr>) = ''logical''
   \<and> (lg_message_type state \<noteq> Some ''emotional'' \<longrightarrow> router state = ''logical'')
   \<and> (router state = ''therapist'' \<or> router state = ''logical'')"
  by (simp add: route_message_def router_def)

theorem router_decision_tables_witness:
  "''what is 2 + 2'' \<noteq> ''exit'' \<and> ''what is 2 + 2'' \<noteq> ''emotional''
   \<and> route_message ''what is 2 + 2'' = ''logical''
   \<and> lg_message_type State0 \<noteq> Some ''emotional''
   \<and> router State0 = ''logical''"
  using router_decision_tables [of "''what is 2 + 2''" State0]
  by (simp add: State0_def)

text \<open>
  C3 as stated fails for the LangGraph router: the label \<open>exit\<close> is sent to the
  logical branch, not to an exit branch.
\<close>

theorem langgraph_router_has_no_exit_branch:
  "router (State0\<lparr>lg_message_type := Some ''exit''\<rparr>) \<noteq> ''exit''
   \<and> router (State0\<lparr>lg_message_type := Some ''exit''\<rparr>) = ''logical''"
  by (simp add: router_def State0_def)

section \<open>The client configurations\<close>

text \<open>
  C8, as amended. The CrewAI responder client has the model identifier of the
  environment, temperature 0 and the output bound 4096. The CrewAI classifier client
  has the model identifier of the environment and the response schema, and nothing
  else: neither a temperature nor an output bound. The LangGraph client, and the
  classifier client made from it (which adds the response schema), have the fixed model
  identifier \<open>gemini-2.5-flash\<close>, temperature 0, no output bound, no timeout and two
  retries.
\<close>

theorem client_configurations:
  "gemini_llm environ =
     \<lparr>model = environ ''MODEL'', temperature = Some 0, max_tokens = Some 4096,
      timeout = None, max_retries = None, response_format = None\<rparr>
   \<and> model (classifier_llm environ) = environ ''MODEL''
   \<and> temperature (classifier_llm environ) = None
   \<and> max_tokens (classifier_llm environ) = None
   \<and> model (llm environ) = Some ''gemini-2.5-flash''
   \<and> temperature (llm environ) = Some 0
   \<and> max_tokens (llm environ) = None
   \<and> max_retries (llm environ) = Some 2
   \<and> model (lg_classifier_llm environ) = Some ''gemini-2.5-flash''
   \<and> temperature (lg_classifier_llm environ) = Some 0
   \<and> max_tokens (lg_classifier_llm environ) = None
   \<and> classifier_llm environ =
     \<lparr>model = environ ''MODEL'', temperature = None, max_tokens = None,
      timeout = None, max_retries = None, response_format = Some ''MessageClassifier''\<rparr>
   \<and> llm environ =
     \<lparr>model = Some ''gemini-2.5-flash'', temperature = Some 0, max_tokens = None,
      timeout = None, max_retries = Some 2, response_format = None\<rparr>
   \<and> lg_classifier_llm environ =
     \<lparr>model = Some ''gemini-2.5-flash'', temperature = Some 0, max_tokens = None,
      timeout = None, max_retries = Some 2, response_format = Some ''MessageClassifier''\<rparr>"
  by (simp add: gemini_llm_def classifier_llm_def llm_def lg_classifier_llm_def
      GEMINI_MODEL_def)

theorem client_configurations_witness:
  "model (gemini_llm demo_environ) = Some ''gemini/gemini-2.0-flash''
   \<and> model (classifier_llm demo_environ) = Some ''gemini/gemini-2.0-flash''
   \<and> model (llm demo_environ) = Some ''gemini-2.5-flash''"
  using client_configurations [of demo_environ]
  by (simp add: demo_environ_def)

text \<open>
  C8 as stated fails: in an environment whose \<open>MODEL\<close> is another identifier, the
  CrewAI classifier client has no temperature and no output bound, and the LangGraph
  client has neither the environment's identifier nor an output bound.
\<close>

theorem clients_not_uniformly_configured:
  "temperature (classifier_llm demo_environ) \<noteq> Some 0
   \<and> max_tokens (classifier_llm demo_environ) = None
   \<and> model (llm demo_environ) \<noteq> demo_environ ''MODEL''
   \<and> max_tokens (llm demo_environ) = None"
  by (simp add: classifier_llm_def llm_def demo_environ_def)

section \<open>Classification\<close>

text \<open>
  What the CrewAI classification step does with a response that the classifier call
  returned for a non-empty message: the label of the \<^verbatim>\<open>try\<close> block when it
  returns, \<open>logical\<close> when it raises one of the three exceptions of the handler, and
  any other exception goes to the caller.
\<close>

lemma classify_message_returned:
  assumes "user_message st \<noteq> []"
    and "classifier_call ep (length (calls w)) (classify_request 16 (user_message st)) = Inr result"
  shows "fst (classify_message ep (w, st)) =
     (case parse_label (json_loads ep) result of
        Inr mt \<Rightarrow> Inr mt
      | Inl e \<Rightarrow> if caught e then Inr ''logical'' else Inl e)"
  using assms by (simp add: classify_message_def Let_def split: sum.splits)

text \<open>
  An integer of 5000 digits as the response: \<^verbatim>\<open>json.loads\<close> raises a
  \<^verbatim>\<open>ValueError\<close> that the handler does not catch, and the step raises it.
\<close>

lemma crewai_uncaught_decoder_error:
  "fst (classify_message overflow_endpoint (world0, MessageState0\<lparr>user_message := ''hello''\<rparr>))
     = Inl ValueError"
  by code_simp

text \<open>
  C2. The claim: a classifier response that fails parsing or validation gives the label
  \<open>logical\<close> and no error to the caller. The runs that decide it: in the LangGraph
  graph, when the structured call cannot parse the model's output and raises, the
  classification node raises too and the session ends with that exception, so no label
  is set and the router's default is never reached; in the CrewAI flow, the sibling
  step given a response that is no JSON sets the label \<open>logical\<close> and returns it.
\<close>

theorem langgraph_classifier_failure_is_raised:
  "fst (lg_classify_message broken_endpoint (world0, State0\<lparr>messages := [user_turn ''hello'']\<rparr>))
     = Inl OutputParserException
   \<and> fst (lg_run_chatbot broken_endpoint [''hello'', ''exit'']) = Inl OutputParserException
   \<and> fst (classify_message broken_endpoint (world0, MessageState0\<lparr>user_message := ''hello''\<rparr>))
     = Inr ''logical''
   \<and> message_type (snd (snd (classify_message broken_endpoint
         (world0, MessageState0\<lparr>user_message := ''hello''\<rparr>)))) = ''logical''"
  by code_simp

section \<open>The CrewAI flow and the history\<close>

lemma classify_message_frame:
  "conversation_history (snd (snd (classify_message ep (w, st)))) = conversation_history st
   \<and> user_message (snd (snd (classify_message ep (w, st)))) = user_message st"
  by (simp add: classify_message_def Let_def split: sum.splits)

lemma classify_message_replies:
  "replies_of (calls (fst (snd (classify_message ep (w, st))))) = replies_of (calls w)"
  by (simp add: classify_message_def Let_def log_call_def replies_of_append split: sum.splits)

lemma persona_response_history:
  "conversation_history (snd (snd (persona_response persona ep (w, st)))) =
     (case completion ep (length (calls w)) (responder_request persona st) of
        Inl e \<Rightarrow> conversation_history st
      | Inr reply \<Rightarrow> conversation_history st @ [user_turn (user_message st), assistant_turn reply])"
  by (simp add: persona_response_def Let_def split: sum.splits)

lemma persona_response_Inl:
  "completion ep (length (calls w)) (responder_request persona st) = Inl e \<Longrightarrow>
   persona_response persona ep (w, st) =
     (Inl e, log_call (Completion (responder_request persona st) (Inl e)) w, st)"
  by (simp add: persona_response_def Let_def)

lemma persona_response_Inr:
  "completion ep (length (calls w)) (responder_request persona st) = Inr reply \<Longrightarrow>
   persona_response persona ep (w, st) =
     (Inr reply,
      print_line (''Assistant: '' @ reply)
        (log_call (Completion (responder_request persona st) (Inr reply)) w),
      st\<lparr>conversation_history :=
            conversation_history st @ [user_turn (user_message st), assistant_turn reply],
          response := reply\<rparr>)"
  by (simp add: persona_response_def Let_def)

text \<open>
  A responder either receives a reply, and then appends the user entry and the
  assistant entry, or lets the call's exception through and leaves the history alone.
\<close>

lemma persona_response_turn:
  assumes "persona_response persona ep (w, st) = (res, w', st')"
  shows "(\<exists>reply. res = Inr reply
            \<and> replies_of (calls w') = replies_of (calls w) @ [reply]
            \<and> conversation_history st' =
                conversation_history st @ [user_turn (user_message st), assistant_turn reply])
         \<or> ((\<exists>e. res = Inl e) \<and> replies_of (calls w') = replies_of (calls w)
            \<and> conversation_history st' = conversation_history st)"
proof (cases "completion ep (length (calls w)) (responder_request persona st)")
  case (Inl e)
  have "(res, w', st') =
      (Inl e, log_call (Completion (responder_request persona st) (Inl e)) w, st)"
    using assms persona_response_Inl [OF Inl] by (rule trans [OF sym])
  then have "res = Inl e" "st' = st"
    "w' = log_call (Completion (responder_request persona st) (Inl e)) w"
    by simp_all
  then show ?thesis
    by (simp add: log_call_def replies_of_append)
next
  case (Inr reply)
  have "(res, w', st') =
      (Inr reply,
       print_line (''Assistant: '' @ reply)
         (log_call (Completion (responder_request persona st) (Inr reply)) w),
       st\<lparr>conversation_history :=
             conversation_history st @ [user_turn (user_message st), assistant_turn reply],
           response := reply\<rparr>)"
    using assms persona_response_Inr [OF Inr] by (rule trans [OF sym])
  then have "res = Inr reply"
    "st' = st\<lparr>conversation_history :=
            conversation_history st @ [user_turn (user_message st), assistant_turn reply],
          response := reply\<rparr>"
    "w' = print_line (''Assistant: '' @ reply)
        (log_call (Completion (responder_request persona st) (Inr reply)) w)"
    by simp_all
  then show ?thesis
    by (simp add: log_call_def print_line_def replies_of_append)
qed

text \<open>One run of the flow completes a turn, or ends in the exit step or an exception.\<close>

lemma kickoff_turn:
  assumes "kickoff ep (w, st) = (res, w', st')"
  shows "(\<exists>reply. res = Inr reply
            \<and> replies_of (calls w') = replies_of (calls w) @ [reply]
            \<and> conversation_history st' =
                conversation_history st @ [user_turn (user_message st), assistant_turn reply])
         \<or> (((\<exists>e. res = Inl e) \<or> res = Inr ''goodbye'')
            \<and> replies_of (calls w') = replies_of (calls w)
            \<and> conversation_history st' = conversation_history st)"
proof (cases "classify_message ep (w, st)")
  case (fields r w1 st1)
  have frame: "replies_of (calls w1) = replies_of (calls w)"
    "conversation_history st1 = conversation_history st" "user_message st1 = user_message st"
    using classify_message_replies [of ep w st] classify_message_frame [of ep w st] fields
    by simp_all
  show ?thesis
  proof (cases r)
    case (Inl e)
    with assms fields frame show ?thesis
      by (auto simp: kickoff_def)
  next
    case (Inr mt)
    consider (therapist) "route_message mt = ''therapist''"
      | (logical) "route_message mt = ''logical''"
      | (exit) "route_message mt = ''exit''"
      by (cases "mt = ''exit''"; cases "mt = ''emotional''") (auto simp: route_message_def)
    then show ?thesis
    proof cases
      case therapist
      with assms fields Inr
      have "persona_response (therapist_prompt 16) ep (w1, st1) = (res, w', st')"
        by (simp add: kickoff_def therapist_response_def)
      from persona_response_turn [OF this] frame show ?thesis by auto
    next
      case logical
      with assms fields Inr
      have "persona_response (logical_prompt 16) ep (w1, st1) = (res, w', st')"
        by (simp add: kickoff_def logical_response_def)
      from persona_response_turn [OF this] frame show ?thesis by auto
    next
      case exit
      with assms fields Inr frame show ?thesis
        by (auto simp: kickoff_def handle_exit_def print_line_def)
    qed
  qed
qed

text \<open>
  C9. In the CrewAI flow, \<open>classify_message\<close> and \<open>handle_exit\<close> return the state
  with the history it had; \<open>route_message\<close> is a function of the label alone and
  has no state to change. \<open>therapist_response\<close> and \<open>logical_response\<close> append
  exactly the user entry and then the assistant entry when the completion call
  returns a reply (and nothing when it raises). So one run of the flow leaves the
  history as it was or appends that one pair.
\<close>

theorem history_frame:
  "conversation_history (snd (snd (classify_message ep (w, st)))) = conversation_history st
   \<and> conversation_history (snd (snd (handle_exit (w, st)))) = conversation_history st
   \<and> conversation_history (snd (snd (therapist_response ep (w, st)))) =
       (case completion ep (length (calls w)) (responder_request (therapist_prompt 16) st) of
          Inl e \<Rightarrow> conversation_history st
        | Inr reply \<Rightarrow>
            conversation_history st @ [user_turn (user_message st), assistant_turn reply])
   \<and> conversation_history (snd (snd (logical_response ep (w, st)))) =
       (case completion ep (length (calls w)) (responder_request (logical_prompt 16) st) of
          Inl e \<Rightarrow> conversation_history st
        | Inr reply \<Rightarrow>
            conversation_history st @ [user_turn (user_message st), assistant_turn reply])
   \<and> (conversation_history (snd (snd (kickoff ep (w, st)))) = conversation_history st
       \<or> (\<exists>reply. conversation_history (snd (snd (kickoff ep (w, st)))) =
             conversation_history st @ [user_turn (user_message st), assistant_turn reply]))"
proof -
  have "kickoff ep (w, st) =
      (fst (kickoff ep (w, st)), fst (snd (kickoff ep (w, st))), snd (snd (kickoff ep (w, st))))"
    by simp
  from kickoff_turn [OF this]
  have "conversation_history (snd (snd (kickoff ep (w, st)))) = conversation_history st
       \<or> (\<exists>reply. conversation_history (snd (snd (kickoff ep (w, st)))) =
             conversation_history st @ [user_turn (user_message st), assistant_turn reply])"
    by blast
  then show ?thesis
    by (simp add: classify_message_frame persona_response_history handle_exit_def
        therapist_response_def logical_response_def)
qed

text \<open>
  With the history \<open>a\<close>, \<open>b\<close> and the user message \<open>c\<close>, the therapist step
  appends \<open>c\<close> and the reply; the classification step appends nothing.
\<close>

theorem history_frame_witness:
  "conversation_history (snd (snd (therapist_response echo_endpoint (world0, two_turns)))) =
     [user_turn ''a'', assistant_turn ''b'', user_turn ''c'', assistant_turn ''re: c'']
   \<and> conversation_history (snd (snd (classify_message echo_endpoint (world0, two_turns)))) =
     [user_turn ''a'', assistant_turn ''b'']
   \<and> conversation_history (snd (snd (kickoff echo_endpoint (world0, two_turns)))) =
     [user_turn ''a'', assistant_turn ''b'', user_turn ''c'', assistant_turn ''re: c'']"
proof -
  have kick: "conversation_history (snd (snd (kickoff echo_endpoint (world0, two_turns)))) =
     [user_turn ''a'', assistant_turn ''b'', user_turn ''c'', assistant_turn ''re: c'']"
    by code_simp
  from history_frame [of echo_endpoint world0 two_turns] kick show ?thesis
    by (simp add: two_turns_def echo_endpoint_def responder_request_def)
qed

section \<open>The history after a session\<close>

text \<open>
  However the CrewAI loop ends, the replies it received are at most as many as the
  lines it was given, and the history has grown by the pairs of the first lines and
  these replies.
\<close>

lemma run_loop_history:
  "run_loop ep lines (w, st) = (res, w', st') \<Longrightarrow>
     \<exists>rs. length rs \<le> length lines
        \<and> replies_of (calls w') = replies_of (calls w) @ rs
        \<and> conversation_history st' = conversation_history st @ turn_pairs (zip lines rs)"
proof (induction lines arbitrary: w st)
  case Nil
  then show ?case by (auto simp: show_prompt_def)
next
  case (Cons u rest)
  show ?case
  proof (cases "strip (lower u) = ''exit''")
    case True
    with Cons.prems show ?thesis by (auto simp: show_prompt_def)
  next
    case False
    obtain r w1 st1 where
      k: "kickoff ep (show_prompt crew_prompt w, st\<lparr>user_message := u\<rparr>) = (r, w1, st1)"
      by (cases "kickoff ep (show_prompt crew_prompt w, st\<lparr>user_message := u\<rparr>)") auto
    from kickoff_turn [OF k]
    consider (reply) reply where "r = Inr reply"
        "replies_of (calls w1) = replies_of (calls w) @ [reply]"
        "conversation_history st1 = conversation_history st @ [user_turn u, assistant_turn reply]"
      | (none) "(\<exists>e. r = Inl e) \<or> r = Inr ''goodbye''"
        "replies_of (calls w1) = replies_of (calls w)"
        "conversation_history st1 = conversation_history st"
      by (auto simp: show_prompt_def)
    then show ?thesis
    proof cases
      case reply
      show ?thesis
      proof (cases "message_type st1 = ''exit'' \<or> reply = ''goodbye''")
        case True
        with Cons.prems False k reply have "w' = w1" "st' = st1" by auto
        with reply show ?thesis
          by (intro exI [of _ "[reply]"]) simp
      next
        case stay: False
        with Cons.prems False k reply have "run_loop ep rest (w1, st1) = (res, w', st')"
          by auto
        from Cons.IH [OF this] obtain rs where "length rs \<le> length rest"
          "replies_of (calls w') = replies_of (calls w1) @ rs"
          "conversation_history st' = conversation_history st1 @ turn_pairs (zip rest rs)"
          by blast
        with reply show ?thesis
          by (intro exI [of _ "reply # rs"]) simp
      qed
    next
      case none
      with Cons.prems False k have "w' = w1" "st' = st1" by auto
      with none show ?thesis
        by (intro exI [of _ "[]"]) simp
    qed
  qed
qed

text \<open>A run of the graph that returns has received one reply and appended it.\<close>

lemma graph_invoke_turn:
  assumes "graph_invoke ep (w, state) = (Inr state', w')"
  shows "\<exists>reply. replies_of (calls w') = replies_of (calls w) @ [reply]
            \<and> messages state' = messages state @ [assistant_turn reply]"
  using assms
  by (auto simp: graph_invoke_def lg_classify_message_def therapist_agent_def logical_agent_def
      persona_agent_def router_def Let_def log_call_def replies_of_append
      split: sum.splits option.splits if_splits)

lemma lg_run_loop_history:
  "lg_run_loop ep lines (w, state) = (Inr (), w', state') \<Longrightarrow>
     \<exists>rs. length rs \<le> length lines
        \<and> replies_of (calls w') = replies_of (calls w) @ rs
        \<and> messages state' = messages state @ turn_pairs (zip lines rs)"
proof (induction lines arbitrary: w state)
  case Nil
  then show ?case by simp
next
  case (Cons u rest)
  show ?case
  proof (cases "lower (strip u) = ''exit''")
    case True
    with Cons.prems show ?thesis by (auto simp: show_prompt_def print_line_def)
  next
    case False
    obtain r w1 where g: "graph_invoke ep (show_prompt lg_prompt w,
        state\<lparr>messages := messages state @ [user_turn u]\<rparr>) = (r, w1)"
      by (cases "graph_invoke ep (show_prompt lg_prompt w,
        state\<lparr>messages := messages state @ [user_turn u]\<rparr>)") auto
    show ?thesis
    proof (cases r)
      case (Inl e)
      with Cons.prems False g show ?thesis by simp
    next
      case (Inr state2)
      with Cons.prems False g
      have loop: "lg_run_loop ep rest (show_last state2 w1, state2) = (Inr (), w', state')"
        by simp
      from graph_invoke_turn [OF g [unfolded Inr]] obtain reply where
        reply: "replies_of (calls w1) = replies_of (calls w) @ [reply]"
          "messages state2 = messages state @ [user_turn u, assistant_turn reply]"
        by (auto simp: show_prompt_def)
      from Cons.IH [OF loop] obtain rs where "length rs \<le> length rest"
        "replies_of (calls w') = replies_of (calls (show_last state2 w1)) @ rs"
        "messages state' = messages state2 @ turn_pairs (zip rest rs)"
        by blast
      with reply show ?thesis
        by (intro exI [of _ "reply # rs"]) (simp add: show_last_def print_line_def)
    qed
  qed
qed

text \<open>
  C5. A turn is completed when its responder has received a reply; the completed turns
  of a session are the first lines read, in order, each with the reply it received.
  When the CrewAI loop has ended, in whatever way, after N completed turns, and when
  the LangGraph loop has returned after N completed turns, the history holds exactly
  2N entries: for each completed turn in order, the user entry with the line as it was
  read and then the assistant entry with the reply as it was received. (The history is
  looked at between turns, where the loop is at its prompt or has ended there; within a
  turn the LangGraph list already holds the new user entry.)
\<close>

theorem history_round_trip:
  "(run_chatbot ep lines = (res, w', st') \<longrightarrow>
      conversation_history st' = turn_pairs (zip lines (replies_of (calls w')))
      \<and> length (replies_of (calls w')) \<le> length lines
      \<and> length (conversation_history st') = 2 * length (replies_of (calls w')))
   \<and> (lg_run_chatbot ep lines = (Inr (), lw, state') \<longrightarrow>
      messages state' = turn_pairs (zip lines (replies_of (calls lw)))
      \<and> length (replies_of (calls lw)) \<le> length lines
      \<and> length (messages state') = 2 * length (replies_of (calls lw)))"
proof (intro conjI impI)
  assume "run_chatbot ep lines = (res, w', st')"
  then have "run_loop ep lines (world0, MessageState0) = (res, w', st')"
    by (simp add: run_chatbot_def)
  from run_loop_history [OF this] obtain rs where rs: "length rs \<le> length lines"
    "replies_of (calls w') = rs" "conversation_history st' = turn_pairs (zip lines rs)"
    by (auto simp: world0_def MessageState0_def)
  then show "conversation_history st' = turn_pairs (zip lines (replies_of (calls w')))"
    "length (replies_of (calls w')) \<le> length lines"
    "length (conversation_history st') = 2 * length (replies_of (calls w'))"
    by (simp_all add: length_turn_pairs)
next
  assume "lg_run_chatbot ep lines = (Inr (), lw, state')"
  then have "lg_run_loop ep lines (world0, State0) = (Inr (), lw, state')"
    by (simp add: lg_run_chatbot_def)
  from lg_run_loop_history [OF this] obtain rs where rs: "length rs \<le> length lines"
    "replies_of (calls lw) = rs" "messages state' = turn_pairs (zip lines rs)"
    by (auto simp: world0_def State0_def)
  then show "messages state' = turn_pairs (zip lines (replies_of (calls lw)))"
    "length (replies_of (calls lw)) \<le> length lines"
    "length (messages state') = 2 * length (replies_of (calls lw))"
    by (simp_all add: length_turn_pairs)
qed

text \<open>
  Two turns and then the sentinel: both scripts end with the four entries of the two
  turns, the user lines as typed (blanks and capitals kept).
\<close>

theorem history_round_trip_witness:
  "conversation_history (snd (snd (run_chatbot echo_endpoint ['' I feel sad'', ''Why?'', ''exit''])))
     = [user_turn '' I feel sad'', assistant_turn ''re:  I feel sad'',
        user_turn ''Why?'', assistant_turn ''re: Why?'']
   \<and> fst (lg_run_chatbot echo_endpoint ['' I feel sad'', ''Why?'', ''exit'']) = Inr ()
   \<and> messages (snd (snd (lg_run_chatbot echo_endpoint ['' I feel sad'', ''Why?'', ''exit''])))
     = [user_turn '' I feel sad'', assistant_turn ''re:  I feel sad'',
        user_turn ''Why?'', assistant_turn ''re: Why?'']"
proof -
  let ?lines = "['' I feel sad'', ''Why?'', ''exit'']"
  let ?c = "run_chatbot echo_endpoint ?lines"
  let ?l = "lg_run_chatbot echo_endpoint ?lines"
  have c: "replies_of (calls (fst (snd ?c))) = [''re:  I feel sad'', ''re: Why?'']"
    by code_simp
  have l: "fst ?l = Inr ()" "replies_of (calls (fst (snd ?l))) = [''re:  I feel sad'', ''re: Why?'']"
    by code_simp+
  have "?c = (fst ?c, fst (snd ?c), snd (snd ?c))" "?l = (Inr (), fst (snd ?l), snd (snd ?l))"
    using l(1) by (simp_all add: prod_eq_iff)
  with history_round_trip [of echo_endpoint ?lines "fst ?c" "fst (snd ?c)" "snd (snd ?c)"
      "fst (snd ?l)" "snd (snd ?l)"]
  have "conversation_history (snd (snd ?c)) = turn_pairs (zip ?lines (replies_of (calls (fst (snd ?c)))))"
    "messages (snd (snd ?l)) = turn_pairs (zip ?lines (replies_of (calls (fst (snd ?l)))))"
    by blast+
  with c l show ?thesis by simp
qed

section \<open>Empty messages and the farewell\<close>

lemma exit_is_sentinel: "strip (lower ''exit'') = ''exit''" "lower (strip ''exit'') = ''exit''"
  by code_simp+

lemma kickoff_empty:
  "user_message st = [] \<Longrightarrow> kickoff ep (w, st) = (Inr ''goodbye'', print_line ''Bye'' w, st)"
  by (simp add: kickoff_def classify_message_def route_message_def handle_exit_def)

lemma graph_invoke_calls:
  "\<exists>cs. calls (snd (graph_invoke ep (w, state))) =
     calls w @ (if messages state = [] then []
                else Structured (system_message (classifier_prompt 12)) (last (messages state))
                       (structured_invoke ep (length (calls w))
                          (system_message (classifier_prompt 12)) (last (messages state))) # cs)"
  by (auto simp: graph_invoke_def lg_classify_message_def therapist_agent_def logical_agent_def
      persona_agent_def router_def Let_def log_call_def
      split: sum.splits option.splits)

lemma lg_run_loop_calls:
  "\<exists>cs. calls (fst (snd (lg_run_loop ep lines (w, state)))) = calls w @ cs"
proof (induction lines arbitrary: w state)
  case Nil
  show ?case by (simp add: show_prompt_def)
next
  case (Cons u rest)
  show ?case
  proof (cases "lower (strip u) = ''exit''")
    case True
    then show ?thesis by (simp add: show_prompt_def print_line_def)
  next
    case False
    let ?state1 = "state\<lparr>messages := messages state @ [user_turn u]\<rparr>"
    obtain r w1 where g: "graph_invoke ep (show_prompt lg_prompt w, ?state1) = (r, w1)"
      by (cases "graph_invoke ep (show_prompt lg_prompt w, ?state1)") auto
    from graph_invoke_calls [of ep "show_prompt lg_prompt w" ?state1] g
    obtain cs where cs: "calls w1 = calls w @ cs"
      by (auto simp: show_prompt_def)
    show ?thesis
    proof (cases r)
      case (Inl e)
      with False g cs show ?thesis by simp
    next
      case (Inr state2)
      from Cons.IH [of "show_last state2 w1" state2] obtain cs' where
        "calls (fst (snd (lg_run_loop ep rest (show_last state2 w1, state2)))) =
           calls (show_last state2 w1) @ cs'"
        by blast
      with False g cs Inr show ?thesis
        by (simp add: show_last_def print_line_def)
    qed
  qed
qed

text \<open>The LangGraph loop only appends to the message list.\<close>

lemma lg_run_loop_messages:
  "\<exists>ms. messages (snd (snd (lg_run_loop ep lines (w, state)))) = messages state @ ms"
proof (induction lines arbitrary: w state)
  case Nil
  show ?case by simp
next
  case (Cons u rest)
  show ?case
  proof (cases "lower (strip u) = ''exit''")
    case True
    then show ?thesis by simp
  next
    case False
    let ?state1 = "state\<lparr>messages := messages state @ [user_turn u]\<rparr>"
    obtain r w1 where g: "graph_invoke ep (show_prompt lg_prompt w, ?state1) = (r, w1)"
      by (cases "graph_invoke ep (show_prompt lg_prompt w, ?state1)") auto
    show ?thesis
    proof (cases r)
      case (Inl e)
      with False g show ?thesis by simp
    next
      case (Inr state2)
      from graph_invoke_turn [OF g [unfolded Inr]] obtain reply where
        "messages state2 = messages state @ [user_turn u, assistant_turn reply]"
        by auto
      moreover from Cons.IH [of "show_last state2 w1" state2] obtain ms where
        "messages (snd (snd (lg_run_loop ep rest (show_last state2 w1, state2)))) =
           messages state2 @ ms"
        by blast
      ultimately show ?thesis
        using False g Inr by simp
    qed
  qed
qed

text \<open>
  C4, as amended. In the CrewAI flow, a turn whose user message is the empty string
  makes no request to the endpoint: the classification step returns the termination
  signal, the router takes the exit branch, the exit step prints its farewell, and the
  loop ends the session. In the LangGraph loop an empty line is no signal: it is
  appended to the message list as a user entry, the graph runs on that list as for any
  other line, and the classifier sends the entry to the endpoint.
\<close>

theorem empty_message_handling:
  "(user_message st = [] \<longrightarrow>
       classify_message ep (w, st) = (Inr ''exit'', w, st)
       \<and> kickoff ep (w, st) = (Inr ''goodbye'', print_line ''Bye'' w, st))
   \<and> route_message ''exit'' = ''exit''
   \<and> run_loop ep ([] # rest) (w, st) =
       (Inr (), print_line ''Bye'' (show_prompt crew_prompt w), st\<lparr>user_message := []\<rparr>)
   \<and> calls (fst (snd (run_loop ep ([] # rest) (w, st)))) = calls w
   \<and> (\<exists>cs. calls (fst (snd (lg_run_loop ep ([] # rest) (w, state)))) =
         calls w @
           Structured (system_message (classifier_prompt 12)) (user_turn [])
             (structured_invoke ep (length (calls w))
                (system_message (classifier_prompt 12)) (user_turn [])) # cs)
   \<and> (\<exists>ms. messages (snd (snd (lg_run_loop ep ([] # rest) (w, state)))) =
         messages state @ user_turn [] # ms)
   \<and> lg_run_loop ep ([] # rest) (w, state) =
       (case graph_invoke ep
               (show_prompt lg_prompt w,
                state\<lparr>messages := messages state @ [user_turn []]\<rparr>) of
          (Inl e, w1) \<Rightarrow> (Inl e, w1, state\<lparr>messages := messages state @ [user_turn []]\<rparr>)
        | (Inr state2, w1) \<Rightarrow> lg_run_loop ep rest (show_last state2 w1, state2))"
proof -
  let ?state1 = "state\<lparr>messages := messages state @ [user_turn []]\<rparr>"
  let ?call = "Structured (system_message (classifier_prompt 12)) (user_turn [])
             (structured_invoke ep (length (calls w))
                (system_message (classifier_prompt 12)) (user_turn []))"
  have crew: "run_loop ep ([] # rest) (w, st) =
       (Inr (), print_line ''Bye'' (show_prompt crew_prompt w), st\<lparr>user_message := []\<rparr>)"
    by (simp add: empty_is_no_sentinel kickoff_empty)
  obtain r w1 where g: "graph_invoke ep (show_prompt lg_prompt w, ?state1) = (r, w1)"
    by (cases "graph_invoke ep (show_prompt lg_prompt w, ?state1)") auto
  from graph_invoke_calls [of ep "show_prompt lg_prompt w" ?state1] g
  obtain cs where cs: "calls w1 = calls w @ ?call # cs"
    by (auto simp: show_prompt_def)
  have "\<exists>cs. calls (fst (snd (lg_run_loop ep ([] # rest) (w, state)))) = calls w @ ?call # cs"
  proof (cases r)
    case (Inl e)
    with g cs show ?thesis by (simp add: empty_is_no_sentinel)
  next
    case (Inr state2)
    from lg_run_loop_calls [of ep rest "show_last state2 w1" state2] obtain cs' where
      "calls (fst (snd (lg_run_loop ep rest (show_last state2 w1, state2)))) =
         calls (show_last state2 w1) @ cs'"
      by blast
    with g cs Inr show ?thesis
      by (simp add: empty_is_no_sentinel show_last_def print_line_def)
  qed
  moreover have "\<exists>ms. messages (snd (snd (lg_run_loop ep ([] # rest) (w, state)))) =
         messages state @ user_turn [] # ms"
  proof (cases r)
    case (Inl e)
    with g show ?thesis by (simp add: empty_is_no_sentinel)
  next
    case (Inr state2)
    from graph_invoke_turn [OF g [unfolded Inr]] obtain reply where
      "messages state2 = messages state @ [user_turn [], assistant_turn reply]"
      by auto
    moreover from lg_run_loop_messages [of ep rest "show_last state2 w1" state2] obtain ms where
      "messages (snd (snd (lg_run_loop ep rest (show_last state2 w1, state2)))) =
         messages state2 @ ms"
      by blast
    ultimately show ?thesis
      using g Inr by (simp add: empty_is_no_sentinel)
  qed
  moreover have "lg_run_loop ep ([] # rest) (w, state) =
       (case graph_invoke ep (show_prompt lg_prompt w, ?state1) of
          (Inl e, w1) \<Rightarrow> (Inl e, w1, ?state1)
        | (Inr state2, w1) \<Rightarrow> lg_run_loop ep rest (show_last state2 w1, state2))"
    by (simp add: empty_is_no_sentinel)
  ultimately show ?thesis
    using crew
    by (simp add: kickoff_empty classify_message_def route_message_def calls_print_line
        calls_show_prompt del: run_loop.simps lg_run_loop.simps)
qed

text \<open>
  An empty line typed into the CrewAI loop ends it with the farewell on the console and
  an empty request log, also when more lines wait.
\<close>

theorem empty_message_handling_witness:
  "user_message MessageState0 = []
   \<and> kickoff echo_endpoint (world0, MessageState0) = (Inr ''goodbye'', print_line ''Bye'' world0, MessageState0)
   \<and> calls (fst (snd (run_loop echo_endpoint ['''', ''hello''] (world0, MessageState0)))) = []
   \<and> console (fst (snd (run_loop echo_endpoint ['''', ''hello''] (world0, MessageState0))))
       = [Prompt crew_prompt, Print ''Bye'']"
proof -
  have empty: "user_message MessageState0 = []"
    by (simp add: MessageState0_def)
  from empty_message_handling [of MessageState0 echo_endpoint world0 "[''hello'']" State0] empty
  show ?thesis
    by (simp add: world0_def print_line_def show_prompt_def del: run_loop.simps lg_run_loop.simps)
qed

text \<open>
  C4 as stated fails in the LangGraph loop: given one empty line, it makes two requests
  (the classifier's and the responder's, both carrying the empty message), appends the
  turn to the history and goes on to read the next line.
\<close>

theorem langgraph_classifies_empty_message:
  "calls (fst (snd (lg_run_chatbot echo_endpoint ['''']))) =
     [Structured (system_message (classifier_prompt 12)) (user_turn '''') (Inr (Some ''emotional'')),
      Completion [system_message (therapist_prompt 24), user_turn ''''] (Inr ''re: '')]
   \<and> messages (snd (snd (lg_run_chatbot echo_endpoint ['''']))) = [user_turn '''', assistant_turn ''re: '']
   \<and> console (fst (snd (lg_run_chatbot echo_endpoint [''''])))
       = [Prompt lg_prompt, Print ''Assistant: re: '', Prompt lg_prompt]
   \<and> fst (lg_run_chatbot echo_endpoint ['''']) = Inl EOFError"
  by code_simp

text \<open>
  C7. The runs that decide it: given the line \<open>exit\<close>, the CrewAI loop ends with
  only its prompt on the console, no farewell; given an empty line, it ends through the
  exit step, which prints \<open>Bye\<close>; and the LangGraph loop, given \<open>exit\<close>, prints
  \<open>Bye\<close>.
\<close>

theorem crewai_sentinel_prints_no_farewell:
  "console (fst (snd (run_chatbot ep [''exit'']))) = [Prompt crew_prompt]
   \<and> console (fst (snd (run_chatbot ep ['''']))) = [Prompt crew_prompt, Print ''Bye'']
   \<and> console (fst (snd (lg_run_chatbot ep [''exit'']))) = [Prompt lg_prompt, Print ''Bye'']"
  by (simp add: run_chatbot_def lg_run_chatbot_def exit_is_sentinel empty_is_no_sentinel
      kickoff_empty world0_def MessageState0_def show_prompt_def print_line_def)

end
